theory Spec2Isabelle
  imports Main
begin

section \<open>Data model of \<^verbatim>\<open>backend/server.py\<close>\<close>

subsection \<open>Enumerations\<close>

datatype UserRole = CUSTOMER | AGENT

datatype TicketStatus = OPEN | IN_PROGRESS | RESOLVED | CLOSED

datatype TicketPriority = LOW | MEDIUM | HIGH | CRITICAL

datatype TicketCategory = HARDWARE | SOFTWARE | NETWORK | ACCOUNT | OTHER

text \<open>
  \<^verbatim>\<open>TicketStatus\<close> is a \<^verbatim>\<open>str\<close> enumeration: the truth value of a member in
  \<^verbatim>\<open>if ticket_update.status:\<close> is the truth value of its string.
\<close>

fun TicketStatus_value :: "TicketStatus \<Rightarrow> string" where
  "TicketStatus_value OPEN = ''open''"
| "TicketStatus_value IN_PROGRESS = ''in_progress''"
| "TicketStatus_value RESOLVED = ''resolved''"
| "TicketStatus_value CLOSED = ''closed''"

text \<open>Timestamps are whole seconds since the epoch.\<close>

type_synonym datetime = int

definition timedelta_hours :: "int \<Rightarrow> int" where
  "timedelta_hours h = h * 3600"

subsection \<open>Configuration\<close>

definition JWT_SECRET :: string where
  "JWT_SECRET = ''digibuster_secret_key_2025''"

definition JWT_ALGORITHM :: string where
  "JWT_ALGORITHM = ''HS256''"

definition JWT_EXPIRATION_HOURS :: int where
  "JWT_EXPIRATION_HOURS = 24"

subsection \<open>Pydantic models\<close>

record UserCreate =
  uc_email :: string
  uc_password :: string
  uc_full_name :: string
  uc_role :: UserRole

record UserLogin =
  ul_email :: string
  ul_password :: string

record User =
  user_id :: string
  user_email :: string
  user_full_name :: string
  user_role :: UserRole
  user_created_at :: datetime
  user_is_active :: bool

record UserResponse =
  resp_id :: string
  resp_email :: string
  resp_full_name :: string
  resp_role :: UserRole
  resp_created_at :: datetime
  resp_is_active :: bool

record TicketCreate =
  tc_title :: string
  tc_description :: string
  tc_category :: TicketCategory
  tc_priority :: TicketPriority

record Ticket =
  ticket_id :: string
  title :: string
  description :: string
  category :: TicketCategory
  priority :: TicketPriority
  status :: TicketStatus
  customer_id :: string
  customer_name :: string
  agent_id :: "string option"
  agent_name :: "string option"
  created_at :: datetime
  updated_at :: datetime

record TicketUpdate =
  upd_status :: "TicketStatus option"
  upd_agent_id :: "string option"
  upd_agent_name :: "string option"

text \<open>\<^verbatim>\<open>UserResponse(**user.dict())\<close>: the fields of the user, one by one.\<close>

definition UserResponse_of :: "User \<Rightarrow> UserResponse" where
  "UserResponse_of u =
     \<lparr>resp_id = user_id u, resp_email = user_email u, resp_full_name = user_full_name u,
      resp_role = user_role u, resp_created_at = user_created_at u,
      resp_is_active = user_is_active u\<rparr>"

subsection \<open>Errors\<close>

text \<open>
  \<^verbatim>\<open>raise HTTPException(status_code=..., detail=...)\<close> is the left summand of a
  handler's result. Status 401 is the Unauthenticated (and InvalidCredentials) outcome,
  403 is Forbidden, 404 is NotFound.
\<close>

datatype HTTPException = HTTPException (status_code: nat) (detail: string)

subsection \<open>The document store\<close>

text \<open>
  A stored user document is \<^verbatim>\<open>user.dict()\<close> extended by the key \<^verbatim>\<open>password\<close>;
  \<^verbatim>\<open>User(**doc)\<close> reads the user fields back and ignores the extra key.
\<close>

record UserDoc =
  doc_user :: User
  doc_password :: string

record db =
  users :: "UserDoc list"
  tickets :: "Ticket list"

text \<open>
  A collection is the list of its documents in insertion order.
  \<^verbatim>\<open>find_one\<close> gives the first document that matches, \<^verbatim>\<open>find(...).to_list(n)\<close>
  the first \<open>n\<close> documents that match, \<^verbatim>\<open>insert_one\<close> appends, and
  \<^verbatim>\<open>update_one\<close> changes the first document that matches.
\<close>

definition find_one :: "('a \<Rightarrow> bool) \<Rightarrow> 'a list \<Rightarrow> 'a option" where
  "find_one P xs = List.find P xs"

definition find_to_list :: "('a \<Rightarrow> bool) \<Rightarrow> nat \<Rightarrow> 'a list \<Rightarrow> 'a list" where
  "find_to_list P n xs = take n (filter P xs)"

definition insert_one :: "'a \<Rightarrow> 'a list \<Rightarrow> 'a list" where
  "insert_one x xs = xs @ [x]"

fun update_one :: "('a \<Rightarrow> bool) \<Rightarrow> ('a \<Rightarrow> 'a) \<Rightarrow> 'a list \<Rightarrow> 'a list" where
  "update_one P f [] = []"
| "update_one P f (x # xs) = (if P x then f x # xs else x # update_one P f xs)"

section \<open>Helper functions\<close>

subsection \<open>Password hashing\<close>

text \<open>
  The \<^verbatim>\<open>bcrypt\<close> package is a parameter of the model: \<open>hashpw\<close> takes the password
  and a salt, \<open>checkpw\<close> a password and a stored hash. Either call may raise a
  \<^verbatim>\<open>ValueError\<close> (as the package does, from version 5.0, for a password of more than
  72 bytes); the two helper functions do not catch it. The salt that
  \<^verbatim>\<open>bcrypt.gensalt()\<close> draws is an argument of \<open>hash_password\<close>.
\<close>

datatype bcrypt_error = ValueError

record bcrypt =
  hashpw :: "string \<Rightarrow> string \<Rightarrow> bcrypt_error + string"
  checkpw :: "string \<Rightarrow> string \<Rightarrow> bcrypt_error + bool"

definition hash_password :: "bcrypt \<Rightarrow> string \<Rightarrow> string \<Rightarrow> bcrypt_error + string" where
  "hash_password bc password salt = hashpw bc password salt"

definition verify_password :: "bcrypt \<Rightarrow> string \<Rightarrow> string \<Rightarrow> bcrypt_error + bool" where
  "verify_password bc password hashed_password = checkpw bc password hashed_password"

subsection \<open>Tokens\<close>

text \<open>
  A token payload is a dictionary of claims. The \<^verbatim>\<open>jwt\<close> package is a parameter
  of the model as well: \<open>jwt_encode\<close> takes the payload, the key and the algorithm,
  \<open>jwt_decode\<close> the token, the key, the accepted algorithms and the time of the call,
  and either raises a \<^verbatim>\<open>PyJWTError\<close> or returns the payload.
\<close>

datatype jwt_value = JStr string | JNum int

type_synonym payload = "string \<rightharpoonup> jwt_value"

datatype PyJWTError =
  ExpiredSignatureError | InvalidSignatureError | InvalidAlgorithmError | DecodeError

record 'tok jwt =
  jwt_encode :: "payload \<Rightarrow> string \<Rightarrow> string \<Rightarrow> 'tok"
  jwt_decode :: "'tok \<Rightarrow> string \<Rightarrow> string list \<Rightarrow> datetime \<Rightarrow> PyJWTError + payload"

record 'tok LoginResponse =
  access_token :: 'tok
  token_type :: string
  login_user :: UserResponse

text \<open>\<open>now\<close> is the value of \<^verbatim>\<open>datetime.utcnow()\<close> at the call.\<close>

definition create_access_token :: "'tok jwt \<Rightarrow> payload \<Rightarrow> datetime \<Rightarrow> 'tok" where
  "create_access_token J data now =
     (let to_encode = data;
          expire = now + timedelta_hours JWT_EXPIRATION_HOURS;
          to_encode = to_encode(''exp'' \<mapsto> JNum expire)
      in jwt_encode J to_encode JWT_SECRET JWT_ALGORITHM)"

text \<open>
  \<open>credentials\<close> is the bearer token of the request and \<open>now\<close> the time at which
  the token is decoded.
\<close>

definition get_current_user :: "'tok jwt \<Rightarrow> db \<Rightarrow> 'tok \<Rightarrow> datetime \<Rightarrow> HTTPException + User" where
  "get_current_user J d credentials now =
     (case jwt_decode J credentials JWT_SECRET [JWT_ALGORITHM] now of
        Inl _ \<Rightarrow> Inl (HTTPException 401 ''Invalid authentication credentials'')
      | Inr payload \<Rightarrow>
          (case payload ''sub'' of
             None \<Rightarrow> Inl (HTTPException 401 ''Invalid authentication credentials'')
           | Some uid \<Rightarrow>
               (case find_one (\<lambda>u. JStr (user_id (doc_user u)) = uid) (users d) of
                  None \<Rightarrow> Inl (HTTPException 401 ''User not found'')
                | Some user \<Rightarrow> Inr (doc_user user))))"

section \<open>Authentication routes\<close>

text \<open>
  \<open>salt\<close>, \<open>new_uuid\<close> and \<open>now\<close> are the values that \<^verbatim>\<open>bcrypt.gensalt()\<close>,
  \<^verbatim>\<open>uuid.uuid4()\<close> and \<^verbatim>\<open>datetime.utcnow()\<close> give during the request. A route
  that writes returns the store next to its result. Neither route catches the
  \<^verbatim>\<open>ValueError\<close> of a helper function; the framework answers an uncaught exception
  with status 500.
\<close>

definition register ::
  "bcrypt \<Rightarrow> db \<Rightarrow> UserCreate \<Rightarrow> string \<Rightarrow> string \<Rightarrow> datetime
     \<Rightarrow> (HTTPException + UserResponse) \<times> db" where
  "register bc d user_data salt new_uuid now =
     (case find_one (\<lambda>u. user_email (doc_user u) = uc_email user_data) (users d) of
        Some existing_user \<Rightarrow> (Inl (HTTPException 400 ''Email already registered''), d)
      | None \<Rightarrow>
          (case hash_password bc (uc_password user_data) salt of
             Inl ValueError \<Rightarrow> (Inl (HTTPException 500 ''Internal Server Error''), d)
           | Inr hashed_password \<Rightarrow>
               (let user = \<lparr>user_id = new_uuid, user_email = uc_email user_data,
                            user_full_name = uc_full_name user_data,
                            user_role = uc_role user_data,
                            user_created_at = now, user_is_active = True\<rparr>;
                    user_dict = \<lparr>doc_user = user, doc_password = hashed_password\<rparr>
                in (Inr (UserResponse_of user),
                    d\<lparr>users := insert_one user_dict (users d)\<rparr>))))"

definition login ::
  "bcrypt \<Rightarrow> 'tok jwt \<Rightarrow> db \<Rightarrow> UserLogin \<Rightarrow> datetime \<Rightarrow> HTTPException + 'tok LoginResponse" where
  "login bc J d user_data now =
     (case find_one (\<lambda>u. user_email (doc_user u) = ul_email user_data) (users d) of
        None \<Rightarrow> Inl (HTTPException 401 ''Invalid email or password'')
      | Some user \<Rightarrow>
          (case verify_password bc (ul_password user_data) (doc_password user) of
             Inl ValueError \<Rightarrow> Inl (HTTPException 500 ''Internal Server Error'')
           | Inr verified \<Rightarrow>
               if \<not> verified
               then Inl (HTTPException 401 ''Invalid email or password'')
               else Inr \<lparr>access_token =
                           create_access_token J
                             [''sub'' \<mapsto> JStr (user_id (doc_user user))] now,
                         token_type = ''bearer'',
                         login_user = UserResponse_of (doc_user user)\<rparr>))"

definition get_current_user_info :: "User \<Rightarrow> UserResponse" where
  "get_current_user_info current_user = UserResponse_of current_user"

section \<open>Ticket routes\<close>


text \<open>
  Every ticket route receives the caller as \<^verbatim>\<open>current_user\<close>, the user that
  \<^verbatim>\<open>get_current_user\<close> resolved from the bearer token.
\<close>

definition get_ticket :: "db \<Rightarrow> string \<Rightarrow> User \<Rightarrow> HTTPException + Ticket" where
  "get_ticket d tid current_user =
     (case find_one (\<lambda>t. ticket_id t = tid) (tickets d) of
        None \<Rightarrow> Inl (HTTPException 404 ''Ticket not found'')
      | Some ticket_obj \<Rightarrow>
          if user_role current_user = CUSTOMER
             \<and> customer_id ticket_obj \<noteq> user_id current_user
          then Inl (HTTPException 403 ''Access denied'')
          else Inr ticket_obj)"

text \<open>
  \<open>new_uuid\<close>, \<open>now_created\<close> and \<open>now_updated\<close> are the values of the three
  default factories of \<^verbatim>\<open>Ticket\<close>.
\<close>

definition create_ticket ::
  "db \<Rightarrow> TicketCreate \<Rightarrow> User \<Rightarrow> string \<Rightarrow> datetime \<Rightarrow> datetime
     \<Rightarrow> (HTTPException + Ticket) \<times> db" where
  "create_ticket d ticket_data current_user new_uuid now_created now_updated =
     (if user_role current_user \<noteq> CUSTOMER
      then (Inl (HTTPException 403 ''Only customers can create tickets''), d)
      else
        (let ticket = \<lparr>ticket_id = new_uuid, title = tc_title ticket_data,
                       description = tc_description ticket_data,
                       category = tc_category ticket_data,
                       priority = tc_priority ticket_data,
                       status = OPEN,
                       customer_id = user_id current_user,
                       customer_name = user_full_name current_user,
                       agent_id = None, agent_name = None,
                       created_at = now_created, updated_at = now_updated\<rparr>
         in (Inr ticket, d\<lparr>tickets := insert_one ticket (tickets d)\<rparr>)))"

definition get_tickets :: "db \<Rightarrow> User \<Rightarrow> Ticket list" where
  "get_tickets d current_user =
     (if user_role current_user = CUSTOMER
      then find_to_list (\<lambda>t. customer_id t = user_id current_user) 1000 (tickets d)
      else find_to_list (\<lambda>t. True) 1000 (tickets d))"

text \<open>
  The dictionary \<^verbatim>\<open>update_data\<close> is the list of the assignments that
  \<^verbatim>\<open>$set\<close> performs. A string is true in a condition when it is not empty.
\<close>

datatype field_set =
  Set_status TicketStatus | Set_agent_id string | Set_agent_name string
  | Set_updated_at datetime

definition truthy :: "string \<Rightarrow> bool" where
  "truthy s = (s \<noteq> [])"

definition update_data_of :: "TicketUpdate \<Rightarrow> datetime \<Rightarrow> field_set list" where
  "update_data_of ticket_update now =
     (case upd_status ticket_update of
        None \<Rightarrow> []
      | Some s \<Rightarrow> if truthy (TicketStatus_value s) then [Set_status s] else [])
     @ (case upd_agent_id ticket_update of
        None \<Rightarrow> []
      | Some a \<Rightarrow> if truthy a then [Set_agent_id a] else [])
     @ (case upd_agent_name ticket_update of
        None \<Rightarrow> []
      | Some n \<Rightarrow> if truthy n then [Set_agent_name n] else [])
     @ [Set_updated_at now]"

fun set_field :: "field_set \<Rightarrow> Ticket \<Rightarrow> Ticket" where
  "set_field (Set_status s) t = t\<lparr>status := s\<rparr>"
| "set_field (Set_agent_id a) t = t\<lparr>agent_id := Some a\<rparr>"
| "set_field (Set_agent_name n) t = t\<lparr>agent_name := Some n\<rparr>"
| "set_field (Set_updated_at u) t = t\<lparr>updated_at := u\<rparr>"

definition mongo_set :: "field_set list \<Rightarrow> Ticket \<Rightarrow> Ticket" where
  "mongo_set update_data t = fold set_field update_data t"

text \<open>
  \<^verbatim>\<open>Ticket(**updated_ticket)\<close> raises a \<^verbatim>\<open>TypeError\<close> when the second lookup
  finds nothing; the framework answers an uncaught exception with status 500.
\<close>

definition update_ticket ::
  "db \<Rightarrow> string \<Rightarrow> TicketUpdate \<Rightarrow> User \<Rightarrow> datetime \<Rightarrow> (HTTPException + Ticket) \<times> db" where
  "update_ticket d tid ticket_update current_user now =
     (if user_role current_user \<noteq> AGENT
      then (Inl (HTTPException 403 ''Only agents can update tickets''), d)
      else
        (case find_one (\<lambda>t. ticket_id t = tid) (tickets d) of
           None \<Rightarrow> (Inl (HTTPException 404 ''Ticket not found''), d)
         | Some ticket \<Rightarrow>
             (let update_data = update_data_of ticket_update now;
                  d' = d\<lparr>tickets :=
                          update_one (\<lambda>t. ticket_id t = tid) (mongo_set update_data) (tickets d)\<rparr>
              in (case find_one (\<lambda>t. ticket_id t = tid) (tickets d') of
                    None \<Rightarrow> (Inl (HTTPException 500 ''Internal Server Error''), d')
                  | Some updated_ticket \<Rightarrow> (Inr updated_ticket, d')))))"

section \<open>The token library's contract\<close>


section \<open>A concrete instance\<close>

text \<open>
  A small instance of the two library parameters and of the store, on which the routes
  are evaluated: an unsigned token that carries its payload, key and algorithm, and a
  hash that prefixes the password with a salt of ten characters and, as the package does
  from version 5.0, raises for a password of more than 72 bytes.
\<close>

definition toy_bcrypt :: bcrypt where
  "toy_bcrypt =
     \<lparr>hashpw = (\<lambda>password salt.
         if length password > 72 then Inl ValueError else Inr (salt @ password)),
      checkpw = (\<lambda>password hashed.
         if length password > 72 then Inl ValueError else Inr (drop 10 hashed = password))\<rparr>"

definition toy_jwt :: "(payload \<times> string \<times> string) jwt" where
  "toy_jwt =
     \<lparr>jwt_encode = (\<lambda>p key alg. (p, key, alg)),
      jwt_decode = (\<lambda>(p, k, a) key algs now.
         if a \<notin> set algs then Inl InvalidAlgorithmError
         else if k \<noteq> key then Inl InvalidSignatureError
         else (case p ''exp'' of
                 None \<Rightarrow> Inr p
               | Some (JStr s) \<Rightarrow> Inl DecodeError
               | Some (JNum e) \<Rightarrow> if e \<le> now then Inl ExpiredSignatureError else Inr p))\<rparr>"

definition alice :: User where
  "alice = \<lparr>user_id = ''u-alice'', user_email = ''alice@example.com'',
            user_full_name = ''Alice'', user_role = CUSTOMER,
            user_created_at = 1000, user_is_active = True\<rparr>"

definition bob :: User where
  "bob = \<lparr>user_id = ''u-bob'', user_email = ''bob@example.com'',
          user_full_name = ''Bob'', user_role = CUSTOMER,
          user_created_at = 1001, user_is_active = True\<rparr>"

definition carol :: User where
  "carol = \<lparr>user_id = ''u-carol'', user_email = ''carol@example.com'',
            user_full_name = ''Carol'', user_role = AGENT,
            user_created_at = 1002, user_is_active = True\<rparr>"

definition ticket_a :: Ticket where
  "ticket_a = \<lparr>ticket_id = ''t-1'', title = ''Printer'', description = ''No toner'',
               category = HARDWARE, priority = LOW, status = OPEN,
               customer_id = ''u-alice'', customer_name = ''Alice'',
               agent_id = None, agent_name = None,
               created_at = 2000, updated_at = 2000\<rparr>"

definition ticket_b :: Ticket where
  "ticket_b = \<lparr>ticket_id = ''t-2'', title = ''VPN'', description = ''Cannot connect'',
               category = NETWORK, priority = HIGH, status = OPEN,
               customer_id = ''u-bob'', customer_name = ''Bob'',
               agent_id = None, agent_name = None,
               created_at = 2001, updated_at = 2001\<rparr>"

definition example_db :: db where
  "example_db =
     \<lparr>users = [\<lparr>doc_user = alice, doc_password = ''0123456789secret-a''\<rparr>,
               \<lparr>doc_user = bob, doc_password = ''0123456789secret-b''\<rparr>,
               \<lparr>doc_user = carol, doc_password = ''0123456789secret-c''\<rparr>],
      tickets = [ticket_a, ticket_b]\<rparr>"

text \<open>The same users, with every password hashed under another salt.\<close>

definition rehashed_db :: db where
  "rehashed_db =
     \<lparr>users = [\<lparr>doc_user = alice, doc_password = ''abcdefghijsecret-a''\<rparr>,
               \<lparr>doc_user = bob, doc_password = ''abcdefghijsecret-b''\<rparr>,
               \<lparr>doc_user = carol, doc_password = ''abcdefghijsecret-c''\<rparr>],
      tickets = [ticket_a, ticket_b]\<rparr>"

text \<open>A store of 1001 tickets of Alice, the ticket of index \<open>n\<close> with an id of length \<open>n\<close>.\<close>

definition ticket_n :: "nat \<Rightarrow> Ticket" where
  "ticket_n n = ticket_a\<lparr>ticket_id := replicate n CHR ''x''\<rparr>"

definition big_db :: db where
  "big_db = \<lparr>users = users example_db, tickets = map ticket_n [0..<1001]\<rparr>"

definition status_only :: TicketUpdate where
  "status_only =
     \<lparr>upd_status = Some IN_PROGRESS, upd_agent_id = Some [], upd_agent_name = None\<rparr>"

definition scanner_request :: TicketCreate where
  "scanner_request = \<lparr>tc_title = ''Scanner'', tc_description = ''Jammed'',
                       tc_category = HARDWARE, tc_priority = LOW\<rparr>"

definition empty_request :: TicketCreate where
  "empty_request = \<lparr>tc_title = [], tc_description = [],
                     tc_category = OTHER, tc_priority = MEDIUM\<rparr>"

definition alice_login :: UserLogin where
  "alice_login = \<lparr>ul_email = ''alice@example.com'', ul_password = ''secret-a''\<rparr>"

text \<open>A password of 73 bytes.\<close>

definition long_password :: string where
  "long_password = replicate 73 CHR ''a''"

definition dave_data :: UserCreate where
  "dave_data = \<lparr>uc_email = ''dave@example.com'', uc_password = ''secret-d'',
                 uc_full_name = ''Dave'', uc_role = CUSTOMER\<rparr>"

section \<open>Properties\<close>

subsection \<open>The store\<close>

lemma find_one_None_iff: "find_one P xs = None \<longleftrightarrow> (\<forall>x \<in> set xs. \<not> P x)"
  by (auto simp: find_one_def find_None_iff)

lemma find_one_split:
  "find_one P xs = Some t \<Longrightarrow> \<exists>as bs. xs = as @ t # bs \<and> (\<forall>a \<in> set as. \<not> P a) \<and> P t"
proof (induction xs)
  case Nil
  then show ?case by (simp add: find_one_def)
next
  case (Cons x xs)
  show ?case
  proof (cases "P x")
    case True
    with Cons.prems have "x = t" by (simp add: find_one_def)
    with True have "x # xs = [] @ t # xs \<and> (\<forall>a \<in> set []. \<not> P a) \<and> P t" by simp
    then show ?thesis by blast
  next
    case False
    with Cons.prems have "find_one P xs = Some t" by (simp add: find_one_def)
    from Cons.IH [OF this] obtain as bs
      where "xs = as @ t # bs" "\<forall>a \<in> set as. \<not> P a" "P t" by blast
    with False have "x # xs = (x # as) @ t # bs \<and> (\<forall>a \<in> set (x # as). \<not> P a) \<and> P t"
      by simp
    then show ?thesis by blast
  qed
qed

lemma update_one_split:
  "\<forall>a \<in> set as. \<not> P a \<Longrightarrow> P t \<Longrightarrow> update_one P f (as @ t # bs) = as @ f t # bs"
  by (induction as) simp_all

lemma find_one_at:
  "\<forall>a \<in> set as. \<not> P a \<Longrightarrow> P t \<Longrightarrow> find_one P (as @ t # bs) = Some t"
  by (induction as) (simp_all add: find_one_def)

text \<open>
  Two user collections that agree on the user fields of their documents, whatever the
  stored passwords are, answer a query on user fields with the same user.
\<close>

lemma find_one_public:
  "map doc_user xs = map doc_user ys \<Longrightarrow>
     map_option doc_user (find_one (\<lambda>x. Q (doc_user x)) xs)
       = map_option doc_user (find_one (\<lambda>x. Q (doc_user x)) ys)"
proof (induction xs arbitrary: ys)
  case Nil
  then show ?case by (simp add: find_one_def)
next
  case (Cons x xs)
  then obtain y ys' where ys: "ys = y # ys'" by (cases ys) auto
  with Cons.prems have hd: "doc_user x = doc_user y"
    and tl: "map doc_user xs = map doc_user ys'" by simp_all
  from Cons.IH [OF tl] show ?case
    using hd ys by (simp add: find_one_def)
qed

lemma lookup_public:
  assumes "map doc_user xs = map doc_user ys"
  shows "(case find_one (\<lambda>x. Q (doc_user x)) xs of None \<Rightarrow> a | Some u \<Rightarrow> g (doc_user u))
       = (case find_one (\<lambda>x. Q (doc_user x)) ys of None \<Rightarrow> a | Some u \<Rightarrow> g (doc_user u))"
  using find_one_public [OF assms, of Q]
  by (cases "find_one (\<lambda>x. Q (doc_user x)) xs"; cases "find_one (\<lambda>x. Q (doc_user x)) ys")
     simp_all

subsection \<open>The update document\<close>

lemma TicketStatus_value_nonempty: "TicketStatus_value s \<noteq> []"
  by (cases s) simp_all

lemma mongo_set_update_data:
  "mongo_set (update_data_of tu now) t =
     t\<lparr>status := (case upd_status tu of None \<Rightarrow> status t | Some s \<Rightarrow> s),
       agent_id := (case upd_agent_id tu of None \<Rightarrow> agent_id t
                    | Some a \<Rightarrow> if a = [] then agent_id t else Some a),
       agent_name := (case upd_agent_name tu of None \<Rightarrow> agent_name t
                    | Some n \<Rightarrow> if n = [] then agent_name t else Some n),
       updated_at := now\<rparr>"
  by (simp add: mongo_set_def update_data_of_def TicketStatus_value_nonempty truthy_def
      split: option.splits)

lemma mongo_set_ticket_id: "ticket_id (mongo_set (update_data_of tu now) t) = ticket_id t"
  by (simp add: mongo_set_update_data)

subsection \<open>The instance\<close>


lemma example_roles:
  "user_role alice = CUSTOMER" "user_role bob = CUSTOMER" "user_role carol = AGENT"
  by (simp_all add: alice_def bob_def carol_def)

lemma example_find_t1:
  "find_one (\<lambda>t. ticket_id t = ''t-1'') (tickets example_db) = Some ticket_a"
  by (simp add: find_one_def example_db_def ticket_a_def)

lemma example_no_t9: "\<forall>t \<in> set (tickets example_db). ticket_id t \<noteq> ''t-9''"
  by (simp add: example_db_def ticket_a_def ticket_b_def)

lemma example_public: "map doc_user (users example_db) = map doc_user (users rehashed_db)"
  by (simp add: example_db_def rehashed_db_def)

subsection \<open>Reading one ticket\<close>

text \<open>
  Claim C1. For every caller and ticket id, \<open>get_ticket\<close> returns a ticket exactly when
  that ticket is the stored ticket of this id and the caller is an agent, or a customer
  whose id is the ticket's \<open>customer_id\<close>. When the id is stored and the caller is a
  customer with another id, the request fails with status 403 (Forbidden); when no stored
  ticket has the id it fails with status 404 (NotFound), whoever the caller is.
\<close>

theorem get_ticket_access:
  "(get_ticket d tid u = Inr t \<longleftrightarrow>
      find_one (\<lambda>t. ticket_id t = tid) (tickets d) = Some t
      \<and> (user_role u = AGENT \<or> (user_role u = CUSTOMER \<and> user_id u = customer_id t)))
   \<and> (find_one (\<lambda>t. ticket_id t = tid) (tickets d) = Some t
        \<longrightarrow> user_role u = CUSTOMER \<longrightarrow> user_id u \<noteq> customer_id t
        \<longrightarrow> get_ticket d tid u = Inl (HTTPException 403 ''Access denied''))
   \<and> ((\<forall>t \<in> set (tickets d). ticket_id t \<noteq> tid)
        \<longrightarrow> get_ticket d tid u = Inl (HTTPException 404 ''Ticket not found''))"
proof (intro conjI impI)
  show "get_ticket d tid u = Inr t \<longleftrightarrow>
      find_one (\<lambda>t. ticket_id t = tid) (tickets d) = Some t
      \<and> (user_role u = AGENT \<or> (user_role u = CUSTOMER \<and> user_id u = customer_id t))"
    by (cases "user_role u") (auto simp: get_ticket_def split: option.splits)
next
  assume "find_one (\<lambda>t. ticket_id t = tid) (tickets d) = Some t"
    and "user_role u = CUSTOMER" and "user_id u \<noteq> customer_id t"
  then show "get_ticket d tid u = Inl (HTTPException 403 ''Access denied'')"
    by (simp add: get_ticket_def)
next
  assume "\<forall>t \<in> set (tickets d). ticket_id t \<noteq> tid"
  then have "find_one (\<lambda>t. ticket_id t = tid) (tickets d) = None"
    by (simp add: find_one_None_iff)
  then show "get_ticket d tid u = Inl (HTTPException 404 ''Ticket not found'')"
    by (simp add: get_ticket_def)
qed

text \<open>
  Claim C1, on the instance: Alice and the agent Carol read Alice's ticket, Bob is
  refused, and an id that is not stored is not found.
\<close>

theorem get_ticket_access_witness:
  "get_ticket example_db ''t-1'' alice = Inr ticket_a
   \<and> get_ticket example_db ''t-1'' carol = Inr ticket_a
   \<and> get_ticket example_db ''t-1'' bob = Inl (HTTPException 403 ''Access denied'')
   \<and> get_ticket example_db ''t-9'' carol = Inl (HTTPException 404 ''Ticket not found'')"
proof -
  note f = example_find_t1
  have "get_ticket example_db ''t-1'' alice = Inr ticket_a"
    using get_ticket_access [of example_db "''t-1''" alice ticket_a] f
    by (simp add: alice_def ticket_a_def)
  moreover have "get_ticket example_db ''t-1'' carol = Inr ticket_a"
    using get_ticket_access [of example_db "''t-1''" carol ticket_a] f
    by (simp add: carol_def)
  moreover have "get_ticket example_db ''t-1'' bob = Inl (HTTPException 403 ''Access denied'')"
    using get_ticket_access [of example_db "''t-1''" bob ticket_a] f
    by (simp add: bob_def ticket_a_def)
  moreover have "get_ticket example_db ''t-9'' carol = Inl (HTTPException 404 ''Ticket not found'')"
    using get_ticket_access [of example_db "''t-9''" carol] example_no_t9 by blast
  ultimately show ?thesis by blast
qed

subsection \<open>Listing tickets\<close>

text \<open>
  Claim C2, as stated, fails: the listing stops after 1000 documents. In a store of 1001
  tickets of Alice, the last ticket is stored, and owned by Alice, but is in the list of
  neither the agent Carol nor Alice.
\<close>

theorem get_tickets_unbounded_counterexample:
  "user_role carol = AGENT
   \<and> ticket_n 1000 \<in> set (tickets big_db)
   \<and> ticket_n 1000 \<notin> set (get_tickets big_db carol)
   \<and> user_role alice = CUSTOMER
   \<and> customer_id (ticket_n 1000) = user_id alice
   \<and> ticket_n 1000 \<notin> set (get_tickets big_db alice)"
proof -
  have inj: "k = 1000" if "ticket_n 1000 = ticket_n k" for k
  proof -
    from that have "ticket_id (ticket_n 1000) = ticket_id (ticket_n k)" by simp
    then have "length (replicate 1000 CHR ''x'') = length (replicate k CHR ''x'')"
      by (simp add: ticket_n_def)
    then show ?thesis by simp
  qed
  have own: "customer_id (ticket_n k) = user_id alice" for k
    by (simp add: ticket_n_def ticket_a_def alice_def)
  have all: "filter (\<lambda>t. customer_id t = user_id alice) (map ticket_n [0..<1001])
             = map ticket_n [0..<1001]"
    by (simp add: own filter_map o_def)
  have out: "ticket_n 1000 \<notin> set (map ticket_n [0..<1000])"
    using inj by auto
  have tk: "take 1000 (map ticket_n [0..<1001]) = map ticket_n [0..<1000]"
    by (simp add: take_map)
  have "ticket_n 1000 \<in> set (tickets big_db)" by (simp add: big_db_def)
  moreover have "ticket_n 1000 \<notin> set (get_tickets big_db carol)"
    using out tk by (simp add: get_tickets_def find_to_list_def big_db_def carol_def)
  moreover have "ticket_n 1000 \<notin> set (get_tickets big_db alice)"
    using out tk all by (simp add: get_tickets_def find_to_list_def big_db_def alice_def)
  ultimately show ?thesis using own by (simp add: carol_def alice_def)
qed

text \<open>
  Claim C2, amended. The list returned to a customer is the first 1000, in store order,
  of the tickets whose \<open>customer_id\<close> is the caller's id, and the list returned to an
  agent is the first 1000 of all stored tickets; so it is exactly those tickets whenever
  there are at most 1000 of them. The list returned to a customer never contains a ticket
  of another owner.
\<close>

theorem get_tickets_scope:
  "(user_role u = CUSTOMER \<longrightarrow>
      get_tickets d u = take 1000 (filter (\<lambda>t. customer_id t = user_id u) (tickets d)))
   \<and> (user_role u = AGENT \<longrightarrow> get_tickets d u = take 1000 (tickets d))
   \<and> (user_role u = CUSTOMER
        \<longrightarrow> length (filter (\<lambda>t. customer_id t = user_id u) (tickets d)) \<le> 1000
        \<longrightarrow> get_tickets d u = filter (\<lambda>t. customer_id t = user_id u) (tickets d))
   \<and> (user_role u = AGENT \<longrightarrow> length (tickets d) \<le> 1000
        \<longrightarrow> get_tickets d u = tickets d)
   \<and> (user_role u = CUSTOMER \<longrightarrow> customer_id t \<noteq> user_id u
        \<longrightarrow> t \<notin> set (get_tickets d u))"
  by (auto simp: get_tickets_def find_to_list_def dest: in_set_takeD)

text \<open>
  Claim C2 amended, on the instance: Alice lists her ticket only, Carol lists both.
\<close>

theorem get_tickets_scope_witness:
  "get_tickets example_db alice = [ticket_a]
   \<and> get_tickets example_db carol = [ticket_a, ticket_b]
   \<and> ticket_b \<notin> set (get_tickets example_db alice)"
proof -
  note ra = example_roles(1) and rc = example_roles(3)
  have fa: "filter (\<lambda>t. customer_id t = user_id alice) (tickets example_db) = [ticket_a]"
    by (simp add: example_db_def alice_def ticket_a_def ticket_b_def)
  have ta: "tickets example_db = [ticket_a, ticket_b]" by (simp add: example_db_def)
  have nb: "customer_id ticket_b \<noteq> user_id alice" by (simp add: ticket_b_def alice_def)
  have "get_tickets example_db alice = [ticket_a]"
    using get_tickets_scope [of alice example_db ticket_b] ra fa by simp
  moreover have "get_tickets example_db carol = [ticket_a, ticket_b]"
    using get_tickets_scope [of carol example_db ticket_b] rc ta by simp
  moreover have "ticket_b \<notin> set (get_tickets example_db alice)"
    using get_tickets_scope [of alice example_db ticket_b] ra nb by blast
  ultimately show ?thesis by blast
qed

subsection \<open>Updating a ticket\<close>

text \<open>
  Claim C3. For every caller whose role is customer and every ticket id, also the id of
  a ticket the caller owns, \<open>update_ticket\<close> fails with status 403 (Forbidden) and
  leaves the store as it was; an update that returns a ticket was made by an agent.
\<close>

theorem update_ticket_customer_forbidden:
  "(user_role u = CUSTOMER
      \<longrightarrow> update_ticket d tid tu u now
            = (Inl (HTTPException 403 ''Only agents can update tickets''), d))
   \<and> (fst (update_ticket d tid tu u now) = Inr t \<longrightarrow> user_role u = AGENT)"
  by (auto simp: update_ticket_def)

text \<open>Claim C3, on the instance: Alice may not update her own ticket.\<close>

theorem update_ticket_customer_forbidden_witness:
  "user_role alice = CUSTOMER
   \<and> customer_id ticket_a = user_id alice
   \<and> find_one (\<lambda>t. ticket_id t = ''t-1'') (tickets example_db) = Some ticket_a
   \<and> update_ticket example_db ''t-1'' status_only alice 4000
       = (Inl (HTTPException 403 ''Only agents can update tickets''), example_db)"
proof -
  have o: "customer_id ticket_a = user_id alice" by (simp add: ticket_a_def alice_def)
  from update_ticket_customer_forbidden [of alice example_db "''t-1''" status_only 4000]
    example_roles(1)
  have "update_ticket example_db ''t-1'' status_only alice 4000
       = (Inl (HTTPException 403 ''Only agents can update tickets''), example_db)"
    by blast
  then show ?thesis using example_roles(1) o example_find_t1 by blast
qed

text \<open>
  Claim C10. In \<open>update_ticket\<close> the role check comes before the lookup: for a caller
  whose role is customer and an id that is not stored, the update fails with status 403
  (Forbidden), not 404. \<open>get_ticket\<close> looks the id up first and fails with status 404
  (NotFound) for an id that is not stored, whatever the caller's role.
\<close>

theorem update_ticket_role_before_existence:
  "(user_role u = CUSTOMER \<longrightarrow> (\<forall>t \<in> set (tickets d). ticket_id t \<noteq> tid)
      \<longrightarrow> update_ticket d tid tu u now
            = (Inl (HTTPException 403 ''Only agents can update tickets''), d))
   \<and> ((\<forall>t \<in> set (tickets d). ticket_id t \<noteq> tid)
      \<longrightarrow> get_ticket d tid u = Inl (HTTPException 404 ''Ticket not found''))"
  by (simp add: update_ticket_def get_ticket_def find_one_None_iff [symmetric])

text \<open>Claim C10, on the instance: Alice and an id that is not stored.\<close>

theorem update_ticket_role_before_existence_witness:
  "user_role alice = CUSTOMER
   \<and> find_one (\<lambda>t. ticket_id t = ''t-9'') (tickets example_db) = None
   \<and> update_ticket example_db ''t-9'' status_only alice 4000
       = (Inl (HTTPException 403 ''Only agents can update tickets''), example_db)
   \<and> get_ticket example_db ''t-9'' alice = Inl (HTTPException 404 ''Ticket not found'')"
proof -
  have "find_one (\<lambda>t. ticket_id t = ''t-9'') (tickets example_db) = None"
    using example_no_t9 by (simp add: find_one_None_iff)
  with update_ticket_role_before_existence [of alice example_db "''t-9''" status_only 4000]
    example_roles(1) example_no_t9
  show ?thesis by blast
qed

text \<open>
  Claim C5. When an agent updates a stored ticket \<open>t\<close>, the request returns a ticket
  \<open>t'\<close> that takes the place of \<open>t\<close> in the store, every other document staying as it
  was. Of \<open>status\<close>, \<open>agent_id\<close> and \<open>agent_name\<close>, a field is changed only when the
  request supplies a value for it that is not the empty string; a field that is omitted,
  or supplied as the empty string, keeps its value. The id, title, description, category,
  priority, customer id, customer name and creation time are those of \<open>t\<close>, and
  \<open>updated_at\<close> is the time of the update, also when no field is supplied.
\<close>

theorem update_ticket_frame:
  assumes agent: "user_role u = AGENT"
    and found: "find_one (\<lambda>x. ticket_id x = tid) (tickets d) = Some t"
  shows "\<exists>t' as bs.
           update_ticket d tid tu u now = (Inr t', d\<lparr>tickets := as @ t' # bs\<rparr>)
         \<and> tickets d = as @ t # bs
         \<and> status t' = (case upd_status tu of None \<Rightarrow> status t | Some s \<Rightarrow> s)
         \<and> agent_id t' = (case upd_agent_id tu of None \<Rightarrow> agent_id t
                          | Some a \<Rightarrow> if a = [] then agent_id t else Some a)
         \<and> agent_name t' = (case upd_agent_name tu of None \<Rightarrow> agent_name t
                          | Some n \<Rightarrow> if n = [] then agent_name t else Some n)
         \<and> ticket_id t' = ticket_id t \<and> title t' = title t
         \<and> description t' = description t \<and> category t' = category t
         \<and> priority t' = priority t \<and> customer_id t' = customer_id t
         \<and> customer_name t' = customer_name t \<and> created_at t' = created_at t
         \<and> updated_at t' = now"
proof -
  let ?P = "\<lambda>x. ticket_id x = tid"
  let ?f = "mongo_set (update_data_of tu now)"
  from find_one_split [OF found] obtain as bs
    where xs: "tickets d = as @ t # bs" and nas: "\<forall>a \<in> set as. \<not> ?P a" and pt: "?P t"
    by blast
  have upd: "update_one ?P ?f (tickets d) = as @ ?f t # bs"
    using xs update_one_split [OF nas pt] by simp
  have pft: "?P (?f t)" using pt by (simp add: mongo_set_ticket_id)
  have again: "find_one ?P (as @ ?f t # bs) = Some (?f t)"
    using find_one_at [OF nas pft] .
  have res: "update_ticket d tid tu u now = (Inr (?f t), d\<lparr>tickets := as @ ?f t # bs\<rparr>)"
    using agent found upd again by (simp add: update_ticket_def Let_def)
  show ?thesis
    apply (rule exI [of _ "?f t"], rule exI [of _ as], rule exI [of _ bs])
    using res xs by (simp add: mongo_set_update_data)
qed

text \<open>
  Claim C5, on the instance: Carol sets the status of Alice's ticket and supplies the
  empty string as agent id.
\<close>

theorem update_ticket_frame_witness:
  "user_role carol = AGENT
   \<and> find_one (\<lambda>x. ticket_id x = ''t-1'') (tickets example_db) = Some ticket_a
   \<and> (\<exists>t'. fst (update_ticket example_db ''t-1'' status_only carol 4000) = Inr t'
         \<and> status t' = IN_PROGRESS \<and> agent_id t' = None \<and> agent_name t' = None
         \<and> title t' = ''Printer'' \<and> customer_id t' = ''u-alice''
         \<and> created_at t' = 2000 \<and> updated_at t' = 4000)"
proof -
  note r = example_roles(3) and f = example_find_t1
  from update_ticket_frame [OF r f, of status_only 4000]
  obtain t' as bs where
    "update_ticket example_db ''t-1'' status_only carol 4000
       = (Inr t', example_db\<lparr>tickets := as @ t' # bs\<rparr>)"
    "status t' = (case upd_status status_only of None \<Rightarrow> status ticket_a | Some s \<Rightarrow> s)"
    "agent_id t' = (case upd_agent_id status_only of None \<Rightarrow> agent_id ticket_a
                    | Some a \<Rightarrow> if a = [] then agent_id ticket_a else Some a)"
    "agent_name t' = (case upd_agent_name status_only of None \<Rightarrow> agent_name ticket_a
                    | Some n \<Rightarrow> if n = [] then agent_name ticket_a else Some n)"
    "title t' = title ticket_a" "customer_id t' = customer_id ticket_a"
    "created_at t' = created_at ticket_a" "updated_at t' = 4000"
    by blast
  then have "fst (update_ticket example_db ''t-1'' status_only carol 4000) = Inr t'
         \<and> status t' = IN_PROGRESS \<and> agent_id t' = None \<and> agent_name t' = None
         \<and> title t' = ''Printer'' \<and> customer_id t' = ''u-alice''
         \<and> created_at t' = 2000 \<and> updated_at t' = 4000"
    by (simp add: status_only_def ticket_a_def)
  then show ?thesis using r f by blast
qed

subsection \<open>Creating a ticket\<close>

text \<open>
  Claim C4. For every caller whose role is customer, \<open>create_ticket\<close> succeeds, appends
  the returned ticket to the store, and the returned ticket has status open, the caller's
  id as \<open>customer_id\<close>, the caller's full name as \<open>customer_name\<close>, no agent id and no
  agent name, and as id the value that the id generator drew for this request. A caller
  whose role is not customer fails with status 403 (Forbidden), the store unchanged.
\<close>

theorem create_ticket_by_customer:
  "(user_role u = CUSTOMER \<longrightarrow>
      (\<exists>t. create_ticket d td u new_uuid c m = (Inr t, d\<lparr>tickets := tickets d @ [t]\<rparr>)
         \<and> status t = OPEN \<and> customer_id t = user_id u
         \<and> customer_name t = user_full_name u
         \<and> agent_id t = None \<and> agent_name t = None
         \<and> ticket_id t = new_uuid))
   \<and> (user_role u \<noteq> CUSTOMER \<longrightarrow>
        create_ticket d td u new_uuid c m
          = (Inl (HTTPException 403 ''Only customers can create tickets''), d))"
  by (simp add: create_ticket_def insert_one_def Let_def)

text \<open>Claim C4, on the instance: Alice creates a ticket, Carol may not.\<close>

theorem create_ticket_by_customer_witness:
  "user_role alice = CUSTOMER \<and> user_role carol \<noteq> CUSTOMER
   \<and> (\<exists>t. fst (create_ticket example_db scanner_request alice ''t-3'' 3000 3001) = Inr t
          \<and> status t = OPEN \<and> customer_id t = ''u-alice'' \<and> customer_name t = ''Alice''
          \<and> agent_id t = None \<and> agent_name t = None \<and> ticket_id t = ''t-3'')
   \<and> create_ticket example_db scanner_request carol ''t-3'' 3000 3001
        = (Inl (HTTPException 403 ''Only customers can create tickets''), example_db)"
proof -
  note r = example_roles(1)
  have c: "user_role carol \<noteq> CUSTOMER" by (simp add: carol_def)
  have i: "user_id alice = ''u-alice''" and f: "user_full_name alice = ''Alice''"
    by (simp_all add: alice_def)
  from create_ticket_by_customer [of alice example_db scanner_request "''t-3''" 3000 3001] r
  obtain t where
    "create_ticket example_db scanner_request alice ''t-3'' 3000 3001
       = (Inr t, example_db\<lparr>tickets := tickets example_db @ [t]\<rparr>)"
    "status t = OPEN" "customer_id t = user_id alice" "customer_name t = user_full_name alice"
    "agent_id t = None" "agent_name t = None" "ticket_id t = ''t-3''"
    by blast
  then have "\<exists>t. fst (create_ticket example_db scanner_request alice ''t-3'' 3000 3001) = Inr t
          \<and> status t = OPEN \<and> customer_id t = ''u-alice'' \<and> customer_name t = ''Alice''
          \<and> agent_id t = None \<and> agent_name t = None \<and> ticket_id t = ''t-3''"
    using i f by simp
  moreover
  from create_ticket_by_customer [of carol example_db scanner_request "''t-3''" 3000 3001] c
  have "create_ticket example_db scanner_request carol ''t-3'' 3000 3001
        = (Inl (HTTPException 403 ''Only customers can create tickets''), example_db)"
    by blast
  ultimately show ?thesis using r c by blast
qed

text \<open>
  Claim C9, as stated, fails: nothing checks that the title and the description are not
  empty. Alice's request with the empty string for both succeeds, and the ticket is stored.
\<close>

theorem create_ticket_empty_title_counterexample:
  "create_ticket example_db empty_request alice ''t-3'' 3000 3001
   = (Inr \<lparr>ticket_id = ''t-3'', title = [], description = [],
           category = OTHER, priority = MEDIUM, status = OPEN,
           customer_id = ''u-alice'', customer_name = ''Alice'',
           agent_id = None, agent_name = None, created_at = 3000, updated_at = 3001\<rparr>,
      example_db\<lparr>tickets :=
        [ticket_a, ticket_b,
         \<lparr>ticket_id = ''t-3'', title = [], description = [],
           category = OTHER, priority = MEDIUM, status = OPEN,
           customer_id = ''u-alice'', customer_name = ''Alice'',
           agent_id = None, agent_name = None, created_at = 3000, updated_at = 3001\<rparr>]\<rparr>)"
  by (simp add: create_ticket_def insert_one_def Let_def alice_def example_db_def
      empty_request_def)

text \<open>
  Claim C9, amended. The title and the description are strings of the request, and any
  string is accepted, the empty string too: for every request of a customer a ticket with
  the title and the description of the request is created and stored.
\<close>

theorem create_ticket_any_text:
  "user_role u = CUSTOMER \<Longrightarrow>
     \<exists>t. create_ticket d td u new_uuid c m = (Inr t, d\<lparr>tickets := tickets d @ [t]\<rparr>)
        \<and> title t = tc_title td \<and> description t = tc_description td"
  by (simp add: create_ticket_def insert_one_def Let_def)

text \<open>Claim C9 amended, on the instance: Alice's request with empty texts.\<close>

theorem create_ticket_any_text_witness:
  "user_role alice = CUSTOMER
   \<and> (\<exists>t. fst (create_ticket example_db empty_request alice ''t-3'' 3000 3001) = Inr t
          \<and> title t = [] \<and> description t = [])"
proof -
  from create_ticket_any_text [OF example_roles(1), of example_db empty_request "''t-3''"
      3000 3001]
  obtain t where
    "create_ticket example_db empty_request alice ''t-3'' 3000 3001
       = (Inr t, example_db\<lparr>tickets := tickets example_db @ [t]\<rparr>)"
    "title t = tc_title empty_request" "description t = tc_description empty_request"
    by blast
  then have "fst (create_ticket example_db empty_request alice ''t-3'' 3000 3001) = Inr t
          \<and> title t = [] \<and> description t = []"
    by (simp add: empty_request_def)
  then show ?thesis using example_roles(1) by blast
qed

subsection \<open>Logging in\<close>

text \<open>
  A login whose email is not stored and a login whose email is stored but whose password
  the comparison finds wrong fail with the same exception, of status 401 and with the
  same message.
\<close>

lemma login_rejections_equal:
  assumes "find_one (\<lambda>x. user_email (doc_user x) = ul_email l1) (users d1) = None"
    and "find_one (\<lambda>x. user_email (doc_user x) = ul_email l2) (users d2) = Some usr"
    and "verify_password bc (ul_password l2) (doc_password usr) = Inr False"
  shows "login bc J d1 l1 n1 = login bc J d2 l2 n2
         \<and> login bc J d1 l1 n1 = Inl (HTTPException 401 ''Invalid email or password'')"
  using assms by (simp add: login_def)

text \<open>
  Claim C6 does not hold of the code where the comparison does not return but raises.
  \<open>login\<close> has no handler around \<open>verify_password\<close>, so for a stored email and a
  password on which \<^verbatim>\<open>bcrypt.checkpw\<close> raises (more than 72 bytes, from version 5.0 of
  the package) the request ends in status 500, while the same request for an email that
  is not stored ends in the 401: the two failures differ, and tell the caller that the
  email is registered.
\<close>

theorem login_long_password_distinguishable:
  "login toy_bcrypt toy_jwt example_db
     \<lparr>ul_email = ''nobody@example.com'', ul_password = long_password\<rparr> 5000
     = Inl (HTTPException 401 ''Invalid email or password'')
   \<and> login toy_bcrypt toy_jwt example_db
     \<lparr>ul_email = ''alice@example.com'', ul_password = long_password\<rparr> 5000
     = Inl (HTTPException 500 ''Internal Server Error'')"
  by (simp add: login_def find_one_def example_db_def alice_def bob_def carol_def
      verify_password_def toy_bcrypt_def long_password_def)

subsection \<open>The password hash stays in the store\<close>

lemma get_current_user_public:
  assumes "map doc_user (users d) = map doc_user (users d')"
  shows "get_current_user J d tok now = get_current_user J d' tok now"
proof (cases "jwt_decode J tok JWT_SECRET [JWT_ALGORITHM] now")
  case (Inl e)
  then show ?thesis by (simp add: get_current_user_def)
next
  case (Inr p)
  show ?thesis
  proof (cases "p ''sub''")
    case None
    with Inr show ?thesis by (simp add: get_current_user_def)
  next
    case (Some v)
    have "(case find_one (\<lambda>x. JStr (user_id (doc_user x)) = v) (users d) of
             None \<Rightarrow> Inl (HTTPException 401 ''User not found'')
           | Some u \<Rightarrow> Inr (doc_user u))
        = (case find_one (\<lambda>x. JStr (user_id (doc_user x)) = v) (users d') of
             None \<Rightarrow> Inl (HTTPException 401 ''User not found'')
           | Some u \<Rightarrow> Inr (doc_user u))"
      by (rule lookup_public [OF assms, where Q = "\<lambda>u. JStr (user_id u) = v"])
    with Inr Some show ?thesis by (simp add: get_current_user_def)
  qed
qed

lemma login_success:
  assumes "login bc J d l n = Inr r"
  shows "\<exists>usr. find_one (\<lambda>x. user_email (doc_user x) = ul_email l) (users d) = Some usr
           \<and> r = \<lparr>access_token =
                     create_access_token J [''sub'' \<mapsto> JStr (user_id (doc_user usr))] n,
                  token_type = ''bearer'', login_user = UserResponse_of (doc_user usr)\<rparr>"
proof (cases "find_one (\<lambda>x. user_email (doc_user x) = ul_email l) (users d)")
  case None
  with assms show ?thesis by (simp add: login_def)
next
  case (Some usr)
  show ?thesis
  proof (cases "verify_password bc (ul_password l) (doc_password usr)")
    case (Inl e)
    with assms Some show ?thesis by (cases e) (simp add: login_def)
  next
    case (Inr verified)
    with assms Some show ?thesis by (cases verified) (auto simp: login_def)
  qed
qed

lemma login_public:
  assumes pub: "map doc_user (users d) = map doc_user (users d')"
    and r: "login bc J d l n = Inr r"
    and r': "login bc' J d' l' n = Inr r'"
    and e: "ul_email l = ul_email l'"
  shows "r = r'"
proof -
  let ?P = "\<lambda>x. user_email (doc_user x) = ul_email l"
  from login_success [OF r] obtain usr where f: "find_one ?P (users d) = Some usr"
    and rv: "r = \<lparr>access_token =
                     create_access_token J [''sub'' \<mapsto> JStr (user_id (doc_user usr))] n,
                  token_type = ''bearer'', login_user = UserResponse_of (doc_user usr)\<rparr>"
    by blast
  from login_success [OF r'] e obtain usr' where f': "find_one ?P (users d') = Some usr'"
    and rv': "r' = \<lparr>access_token =
                     create_access_token J [''sub'' \<mapsto> JStr (user_id (doc_user usr'))] n,
                  token_type = ''bearer'', login_user = UserResponse_of (doc_user usr')\<rparr>"
    by auto
  from find_one_public [OF pub, where Q = "\<lambda>u. user_email u = ul_email l"] f f'
  have "doc_user usr = doc_user usr'" by simp
  with rv rv' show ?thesis by simp
qed

text \<open>
  A registration that succeeds answers with the user built from the request, the drawn id
  and the time, and stores that user next to the hash of the password.
\<close>

lemma register_success:
  assumes "fst (register bc d ud salt i n) = Inr resp"
  shows "resp = UserResponse_of
                  \<lparr>user_id = i, user_email = uc_email ud, user_full_name = uc_full_name ud,
                   user_role = uc_role ud, user_created_at = n, user_is_active = True\<rparr>
       \<and> (\<exists>doc hashed. hash_password bc (uc_password ud) salt = Inr hashed
             \<and> users (snd (register bc d ud salt i n)) = users d @ [doc]
             \<and> doc_password doc = hashed
             \<and> UserResponse_of (doc_user doc) = resp)"
proof (cases "find_one (\<lambda>u. user_email (doc_user u) = uc_email ud) (users d)")
  case (Some x)
  with assms show ?thesis by (simp add: register_def)
next
  case None
  show ?thesis
  proof (cases "hash_password bc (uc_password ud) salt")
    case (Inl e)
    with assms None show ?thesis by (cases e) (simp add: register_def)
  next
    case (Inr hashed)
    with assms None show ?thesis
      by (auto simp: register_def Let_def insert_one_def)
  qed
qed

text \<open>
  Claim C7. No successful response of \<open>register\<close>, \<open>login\<close> or
  \<open>get_current_user_info\<close> carries the password hash: each is a function of the user
  fields alone. Let two stores agree on the user fields of their documents and differ in
  the stored hashes at will. Then two registrations that succeed return the same
  response, whatever the passwords, the salts and the hash functions are; two logins with
  the same email that succeed return the same response; and a token is resolved to the
  same current user, so that the response of \<open>get_current_user_info\<close> is the same. The
  hash is persisted all the same: after a successful registration the new document holds
  the hash of the password next to the user that the response shows.
\<close>

theorem responses_hide_password_hash:
  assumes "map doc_user (users d) = map doc_user (users d')"
  shows "(fst (register bc d ud salt i n) = Inr resp
            \<longrightarrow> fst (register bc' d' (ud\<lparr>uc_password := pw'\<rparr>) salt' i n) = Inr resp'
            \<longrightarrow> resp = resp')
       \<and> (fst (register bc d ud salt i n) = Inr resp \<longrightarrow>
            (\<exists>doc hashed. hash_password bc (uc_password ud) salt = Inr hashed
               \<and> users (snd (register bc d ud salt i n)) = users d @ [doc]
               \<and> doc_password doc = hashed
               \<and> UserResponse_of (doc_user doc) = resp))
       \<and> (login bc J d l m = Inr r \<longrightarrow> login bc' J d' (l\<lparr>ul_password := pwl\<rparr>) m = Inr r'
            \<longrightarrow> r = r')
       \<and> map_sum id get_current_user_info (get_current_user J d tok now)
           = map_sum id get_current_user_info (get_current_user J d' tok now)"
proof (intro conjI impI)
  assume "fst (register bc d ud salt i n) = Inr resp"
    and "fst (register bc' d' (ud\<lparr>uc_password := pw'\<rparr>) salt' i n) = Inr resp'"
  from register_success [OF this(1)] register_success [OF this(2)]
  show "resp = resp'" by simp
next
  assume "fst (register bc d ud salt i n) = Inr resp"
  from register_success [OF this]
  show "\<exists>doc hashed. hash_password bc (uc_password ud) salt = Inr hashed
               \<and> users (snd (register bc d ud salt i n)) = users d @ [doc]
               \<and> doc_password doc = hashed
               \<and> UserResponse_of (doc_user doc) = resp"
    by blast
next
  assume "login bc J d l m = Inr r" and "login bc' J d' (l\<lparr>ul_password := pwl\<rparr>) m = Inr r'"
  then show "r = r'"
    using login_public [OF assms, of bc J l m r bc' "l\<lparr>ul_password := pwl\<rparr>" r'] by simp
next
  show "map_sum id get_current_user_info (get_current_user J d tok now)
           = map_sum id get_current_user_info (get_current_user J d' tok now)"
    by (simp add: get_current_user_public [OF assms])
qed

text \<open>
  Claim C7, on the instance: the store and the store with other hashes. Alice logs in to
  both with the same response, Dave registers in both with the same response, and his hash
  is stored.
\<close>

theorem responses_hide_password_hash_witness:
  "map doc_user (users example_db) = map doc_user (users rehashed_db)
   \<and> (\<exists>r. login toy_bcrypt toy_jwt example_db alice_login 5000 = Inr r
          \<and> login toy_bcrypt toy_jwt rehashed_db alice_login 5000 = Inr r)
   \<and> (\<exists>resp doc. fst (register toy_bcrypt example_db dave_data ''0123456789'' ''u-dave'' 6000)
                   = Inr resp
          \<and> fst (register toy_bcrypt rehashed_db dave_data ''abcdefghij'' ''u-dave'' 6000)
              = Inr resp
          \<and> users (snd (register toy_bcrypt example_db dave_data ''0123456789'' ''u-dave'' 6000))
              = users example_db @ [doc]
          \<and> doc_password doc = ''0123456789secret-d'')"
proof -
  let ?reg = "register toy_bcrypt example_db dave_data ''0123456789'' ''u-dave'' 6000"
  let ?reg' = "register toy_bcrypt rehashed_db dave_data ''abcdefghij'' ''u-dave'' 6000"
  note pub = example_public
  have pw: "alice_login\<lparr>ul_password := ''secret-a''\<rparr> = alice_login"
    and pd: "dave_data\<lparr>uc_password := ''secret-d''\<rparr> = dave_data"
    by (simp_all add: alice_login_def dave_data_def)
  obtain r where r: "login toy_bcrypt toy_jwt example_db alice_login 5000 = Inr r"
    by (simp add: login_def find_one_def example_db_def alice_def alice_login_def
        verify_password_def toy_bcrypt_def)
  obtain r' where r': "login toy_bcrypt toy_jwt rehashed_db alice_login 5000 = Inr r'"
    by (simp add: login_def find_one_def rehashed_db_def alice_def alice_login_def
        verify_password_def toy_bcrypt_def)
  obtain resp where resp: "fst ?reg = Inr resp"
    by (simp add: register_def find_one_def example_db_def alice_def bob_def carol_def
        dave_data_def hash_password_def toy_bcrypt_def Let_def)
  obtain resp' where resp': "fst ?reg' = Inr resp'"
    by (simp add: register_def find_one_def rehashed_db_def alice_def bob_def carol_def
        dave_data_def hash_password_def toy_bcrypt_def Let_def)
  note inst = responses_hide_password_hash [OF pub, where bc = toy_bcrypt
      and bc' = toy_bcrypt and ud = dave_data and salt = "''0123456789''"
      and salt' = "''abcdefghij''" and i = "''u-dave''" and n = 6000 and pw' = "''secret-d''"
      and resp = resp and resp' = resp' and J = toy_jwt and l = alice_login and m = 5000
      and pwl = "''secret-a''" and r = r and r' = r']
  have "r = r'" using inst r r' by (simp add: pw)
  with r r' have l: "\<exists>r. login toy_bcrypt toy_jwt example_db alice_login 5000 = Inr r
          \<and> login toy_bcrypt toy_jwt rehashed_db alice_login 5000 = Inr r"
    by blast
  have "resp = resp'" using inst resp resp' by (simp add: pd)
  with resp' have same: "fst ?reg' = Inr resp" by simp
  from inst resp obtain doc hashed
    where "hash_password toy_bcrypt (uc_password dave_data) ''0123456789'' = Inr hashed"
      and "users (snd ?reg) = users example_db @ [doc]"
      and "doc_password doc = hashed"
    by blast
  then have "users (snd ?reg) = users example_db @ [doc]
      \<and> doc_password doc = ''0123456789secret-d''"
    by (auto simp: hash_password_def toy_bcrypt_def dave_data_def)
  with resp same have "\<exists>resp doc. fst ?reg = Inr resp \<and> fst ?reg' = Inr resp
      \<and> users (snd ?reg) = users example_db @ [doc]
      \<and> doc_password doc = ''0123456789secret-d''"
    by blast
  with pub l show ?thesis by blast
qed

subsection \<open>Token lifetime\<close>

text \<open>
  Whatever the token library does, a token is resolved to a caller only when a user of the
  subject id is stored.
\<close>

lemma get_current_user_stored:
  assumes "get_current_user J d tok now = Inr u"
  shows "\<exists>doc \<in> set (users d). doc_user doc = u"
proof -
  from assms obtain v doc
    where "find_one (\<lambda>x. JStr (user_id (doc_user x)) = v) (users d) = Some doc"
      and "u = doc_user doc"
    by (auto simp: get_current_user_def split: sum.splits option.splits)
  then show ?thesis by (auto simp: find_one_def find_Some_iff)
qed




end
